theory Spec2Isabelle
  imports Complex_Main "HOL-Library.AList"
begin

section \<open>JavaScript values\<close>

text \<open>
  The services are TypeScript over the Firebase client SDK. A JavaScript \<open>number\<close> that
  counts things (an array length, a counter, an epoch in milliseconds) is an \<open>int\<close>; a
  \<open>number\<close> that measures something (a duration in seconds) is a \<open>rat\<close>, so that the
  division in front of \<open>Math.round\<close> is the exact quotient. The binary rounding of a
  double, \<open>NaN\<close> and the infinities are outside this model. A value that may be
  \<open>null\<close> or \<open>undefined\<close> is an \<open>option\<close>.

  Where two interfaces of the source share a field name (\<open>driverId\<close>, \<open>totalEvents\<close>,
  ...) the field is written with its interface in front, as in
  \<open>DriverStatsDoc.driverId\<close>.
\<close>

text \<open>\<open>Math.round\<close>: the nearest integer, a half rounded towards plus infinity.\<close>

definition Math_round :: "rat \<Rightarrow> int" where
  "Math_round q = \<lfloor>q + 1 / 2\<rfloor>"

text \<open>The operator \<open>??\<close>: the right operand when the left one is null or undefined.\<close>

definition nullish :: "'a option \<Rightarrow> 'a \<Rightarrow> 'a" where
  "nullish v d = (case v of None \<Rightarrow> d | Some x \<Rightarrow> x)"

text \<open>
  A Firestore \<open>Timestamp\<close> is its epoch in milliseconds (what \<open>toDate().getTime()\<close>
  returns). \<open>Date.prototype.getHours\<close> is the hour of the local time; the offset of the
  local zone, in minutes as \<open>getTimezoneOffset\<close> gives it at that instant, is the
  parameter \<open>tz\<close>.
\<close>

type_synonym Timestamp = int

definition getHours :: "(Timestamp \<Rightarrow> int) \<Rightarrow> Timestamp \<Rightarrow> nat" where
  "getHours tz t = nat (((t - tz t * 60000) div 3600000) mod 24)"

section \<open>Domain types\<close>

datatype DriverStatus = Alert | Drowsy | Sleeping

datatype Severity = Low | Medium | High

datatype LiveDriverStatus = LiveAlert | LiveDrowsy | LiveSleeping | LiveOffline

datatype AlertType = drowsiness_detected | high_severity | system_warning | driver_offline

datatype AlertPriority = PriorityLow | PriorityMedium | PriorityHigh | PriorityCritical

record GeoPoint =
  latitude :: rat
  longitude :: rat

record DrowsinessEventDoc =
  eventId :: string
  driverId :: string
  driverName :: string
  startTime :: Timestamp
  endTime :: "Timestamp option"
  duration :: "rat option"
  driverStatus :: DriverStatus
  severity :: Severity
  resolved :: bool
  resolvedAt :: "Timestamp option"
  resolvedBy :: "string option"
  eventNotes :: string
  location :: "GeoPoint option"
  createdAt :: Timestamp

record DailyStatsDoc =
  date :: string
  totalEvents :: int
  highSeverityEvents :: int
  mediumSeverityEvents :: int
  lowSeverityEvents :: int
  totalDrowsinessDuration :: rat
  averageDuration :: int
  activeDrivers :: int
  peakHour :: nat
  eventsByHour :: "(nat \<times> int) list"
  updatedAt :: Timestamp

record DriverStatsDoc =
  driverId :: string
  driverName :: string
  totalEvents :: int
  totalDrowsinessTime :: rat
  averageEventDuration :: int
  highSeverityCount :: int
  mediumSeverityCount :: int
  lowSeverityCount :: int
  lastEventTime :: "Timestamp option"
  riskScore :: int
  updatedAt :: Timestamp

record DashboardMetrics =
  totalEvents :: int
  highSeverityEvents :: int
  avgDuration :: int
  activeDrivers :: int
  totalDrivers :: int
  unresolvedEvents :: int
  trendPercentage :: int

section \<open>The document store\<close>

text \<open>
  A Firestore collection is an association list from document id to document.
  \<open>setDoc\<close> overwrites or creates the document of a key; \<open>addDoc\<close> creates a document
  under an id that the SDK generates (the parameter \<open>autoId\<close>); \<open>updateDoc\<close> changes
  fields of an existing document and is rejected when there is no document of that id.
\<close>

datatype error = NotFound

type_synonym 'd collection = "(string \<times> 'd) list"

definition getDoc :: "string \<Rightarrow> 'd collection \<Rightarrow> 'd option" where
  "getDoc docId coll = map_of coll docId"

definition setDoc :: "string \<Rightarrow> 'd \<Rightarrow> 'd collection \<Rightarrow> 'd collection" where
  "setDoc docId d coll = AList.update docId d coll"

definition addDoc :: "string \<Rightarrow> 'd \<Rightarrow> 'd collection \<Rightarrow> string \<times> 'd collection" where
  "addDoc autoId d coll = (autoId, AList.update autoId d coll)"

definition updateDoc :: "string \<Rightarrow> ('d \<Rightarrow> 'd) \<Rightarrow> 'd collection \<Rightarrow> error + 'd collection" where
  "updateDoc docId change coll =
     (case map_of coll docId of
        None \<Rightarrow> Inl NotFound
      | Some d \<Rightarrow> Inr (AList.update docId (change d) coll))"

section \<open>Stats service\<close>

subsection \<open>computeDailyStats\<close>

text \<open>
  The histogram \<open>eventsByHour\<close> is an object with integer keys: a list of (hour, count)
  pairs. \<open>Object.entries\<close> walks integer keys in ascending order.
\<close>

definition Object_entries :: "(nat \<times> int) list \<Rightarrow> (nat \<times> int) list" where
  "Object_entries obj = sort_key fst obj"

text \<open>\<open>eventsByHour[hour] = (eventsByHour[hour] || 0) + 1\<close>\<close>

definition bumpHour :: "nat \<Rightarrow> (nat \<times> int) list \<Rightarrow> (nat \<times> int) list" where
  "bumpHour hour obj = AList.update hour (nullish (map_of obj hour) 0 + 1) obj"

text \<open>The local variables of the loop over the events.\<close>

record DailyLoop =
  l_eventsByHour :: "(nat \<times> int) list"
  l_totalDuration :: rat
  l_highCount :: int
  l_mediumCount :: int
  l_lowCount :: int
  l_driverSet :: "string set"

definition dailyInit :: DailyLoop where
  "dailyInit =
     \<lparr>l_eventsByHour = map (\<lambda>h. (h, 0)) [0..<24],
      l_totalDuration = 0,
      l_highCount = 0,
      l_mediumCount = 0,
      l_lowCount = 0,
      l_driverSet = {}\<rparr>"

definition dailyStep :: "(Timestamp \<Rightarrow> int) \<Rightarrow> DailyLoop \<Rightarrow> DrowsinessEventDoc \<Rightarrow> DailyLoop" where
  "dailyStep tz s event =
     (let hour = getHours tz (startTime event);
          s1 = s\<lparr>l_eventsByHour := bumpHour hour (l_eventsByHour s),
                 l_totalDuration := l_totalDuration s + nullish (duration event) 0,
                 l_driverSet := insert (DrowsinessEventDoc.driverId event) (l_driverSet s)\<rparr>
      in if severity event = High then s1\<lparr>l_highCount := l_highCount s + 1\<rparr>
         else if severity event = Medium then s1\<lparr>l_mediumCount := l_mediumCount s + 1\<rparr>
         else s1\<lparr>l_lowCount := l_lowCount s + 1\<rparr>)"

text \<open>The reduce that finds the peak: a later hour replaces the maximum only with a
  strictly larger count.\<close>

definition peakStep :: "nat \<times> int \<Rightarrow> nat \<times> int \<Rightarrow> nat \<times> int" where
  "peakStep mx hc = (if snd hc > snd mx then (fst hc, snd hc) else mx)"

definition dailyStatsOf :: "(Timestamp \<Rightarrow> int) \<Rightarrow> string \<Rightarrow> DrowsinessEventDoc list \<Rightarrow> Timestamp \<Rightarrow> DailyStatsDoc" where
  "dailyStatsOf tz dateKey events now =
     (let s = foldl (dailyStep tz) dailyInit events;
          peak = fst (foldl peakStep (0, 0) (Object_entries (l_eventsByHour s)))
      in \<lparr>date = dateKey,
          DailyStatsDoc.totalEvents = int (length events),
          DailyStatsDoc.highSeverityEvents = l_highCount s,
          mediumSeverityEvents = l_mediumCount s,
          lowSeverityEvents = l_lowCount s,
          totalDrowsinessDuration = l_totalDuration s,
          averageDuration =
            (if length events > 0 then Math_round (l_totalDuration s / of_nat (length events)) else 0),
          DailyStatsDoc.activeDrivers = int (card (l_driverSet s)),
          peakHour = peak,
          eventsByHour = l_eventsByHour s,
          DailyStatsDoc.updatedAt = now\<rparr>)"

definition computeDailyStats :: "(Timestamp \<Rightarrow> int) \<Rightarrow> string \<Rightarrow> DrowsinessEventDoc list \<Rightarrow> Timestamp
    \<Rightarrow> DailyStatsDoc collection \<Rightarrow> DailyStatsDoc collection" where
  "computeDailyStats tz dateKey events now dailyStats =
     setDoc dateKey (dailyStatsOf tz dateKey events now) dailyStats"

subsection \<open>computeDriverStats\<close>

text \<open>
  \<open>Array.prototype.sort\<close> is stable; the comparator puts the latest start time first.
\<close>

definition sortLatestFirst :: "DrowsinessEventDoc list \<Rightarrow> DrowsinessEventDoc list" where
  "sortLatestFirst es = sort_key (\<lambda>e. - startTime e) es"

definition driverStatsOf :: "string \<Rightarrow> string \<Rightarrow> DrowsinessEventDoc list \<Rightarrow> Timestamp \<Rightarrow> DriverStatsDoc" where
  "driverStatsOf drvId drvName events now =
     (let driverEvents = filter (\<lambda>e. DrowsinessEventDoc.driverId e = drvId) events;
          totalDuration = foldl (\<lambda>sum e. sum + nullish (duration e) 0) 0 driverEvents;
          highCount = int (length (filter (\<lambda>e. severity e = High) driverEvents));
          mediumCount = int (length (filter (\<lambda>e. severity e = Medium) driverEvents));
          lowCount = int (length (filter (\<lambda>e. severity e = Low) driverEvents));
          eventScore = min (int (length driverEvents) * 5) 40;
          severityScore = min (highCount * 15 + mediumCount * 5) 40;
          durationScore = min (Math_round (totalDuration / 60)) 20;
          risk = min (eventScore + severityScore + durationScore) 100;
          lastEvent = (case sortLatestFirst driverEvents of [] \<Rightarrow> None | e # _ \<Rightarrow> Some e)
      in \<lparr>DriverStatsDoc.driverId = drvId,
          DriverStatsDoc.driverName = drvName,
          DriverStatsDoc.totalEvents = int (length driverEvents),
          totalDrowsinessTime = totalDuration,
          averageEventDuration =
            (if length driverEvents > 0
             then Math_round (totalDuration / of_nat (length driverEvents)) else 0),
          highSeverityCount = highCount,
          mediumSeverityCount = mediumCount,
          lowSeverityCount = lowCount,
          lastEventTime = map_option startTime lastEvent,
          riskScore = risk,
          DriverStatsDoc.updatedAt = now\<rparr>)"

definition computeDriverStats :: "string \<Rightarrow> string \<Rightarrow> DrowsinessEventDoc list \<Rightarrow> Timestamp
    \<Rightarrow> DriverStatsDoc collection \<Rightarrow> DriverStatsDoc collection" where
  "computeDriverStats drvId drvName events now driverStats =
     setDoc drvId (driverStatsOf drvId drvName events now) driverStats"

subsection \<open>getDashboardMetrics\<close>

text \<open>
  \<open>todayKey\<close> and \<open>yesterdayKey\<close> are the two date strings that the function derives from
  the clock (\<open>toISOString().split('T')[0]\<close>).
\<close>

definition getDailyStats :: "string \<Rightarrow> DailyStatsDoc collection \<Rightarrow> DailyStatsDoc option" where
  "getDailyStats dateKey dailyStats = getDoc dateKey dailyStats"

definition getDashboardMetrics :: "string \<Rightarrow> string \<Rightarrow> DailyStatsDoc collection \<Rightarrow> DashboardMetrics" where
  "getDashboardMetrics todayKey yesterdayKey dailyStats =
     (let todayStats = getDailyStats todayKey dailyStats;
          yesterdayStats = getDailyStats yesterdayKey dailyStats;
          totalEvts = nullish (map_option DailyStatsDoc.totalEvents todayStats) 0;
          yesterdayEvents = nullish (map_option DailyStatsDoc.totalEvents yesterdayStats) 0;
          trend =
            (if yesterdayEvents > 0
             then Math_round ((of_int (totalEvts - yesterdayEvents) / of_int yesterdayEvents) * 100)
             else 0)
      in \<lparr>DashboardMetrics.totalEvents = totalEvts,
          DashboardMetrics.highSeverityEvents =
            nullish (map_option DailyStatsDoc.highSeverityEvents todayStats) 0,
          avgDuration = nullish (map_option averageDuration todayStats) 0,
          DashboardMetrics.activeDrivers =
            nullish (map_option DailyStatsDoc.activeDrivers todayStats) 0,
          totalDrivers = 0,
          unresolvedEvents = 0,
          trendPercentage = trend\<rparr>)"

section \<open>Generated identifiers\<close>

text \<open>
  Events and alerts carry an identifier of their own, built from the clock:
  \<open>'ALT' + Date.now().toString(36).toUpperCase()\<close>. It is a field of the document, not
  the id under which Firestore files the document. A call reads the clock once in the
  model (\<open>now\<close>, an epoch after 1970).
\<close>

definition digitChar :: "nat \<Rightarrow> char" where
  "digitChar d = (if d < 10 then char_of (48 + d) else char_of (87 + d))"

fun toString36 :: "nat \<Rightarrow> string" where
  "toString36 n =
     (if n < 36 then [digitChar n] else toString36 (n div 36) @ [digitChar (n mod 36)])"

definition toUpperCase :: "string \<Rightarrow> string" where
  "toUpperCase s =
     map (\<lambda>c. if 97 \<le> (of_char c :: nat) \<and> (of_char c :: nat) \<le> 122
              then char_of ((of_char c :: nat) - 32) else c) s"

section \<open>Event service\<close>

text \<open>
  \<open>createEvent\<close> takes one object; its optional members are \<open>option\<close> arguments here.
  \<open>data.endTime ? Timestamp.fromDate(data.endTime) : null\<close> and
  \<open>data.duration ?? null\<close> each look at one member only.
\<close>

definition createEvent :: "string \<Rightarrow> string \<Rightarrow> DriverStatus \<Rightarrow> Severity \<Rightarrow> Timestamp option
    \<Rightarrow> rat option \<Rightarrow> Timestamp option \<Rightarrow> string option \<Rightarrow> GeoPoint option
    \<Rightarrow> Timestamp \<Rightarrow> string \<Rightarrow> DrowsinessEventDoc collection
    \<Rightarrow> string \<times> DrowsinessEventDoc collection" where
  "createEvent drvId drvName drvStatus sev startArg durationArg endArg notesArg locationArg
       now autoId events =
     (let evtId = ''EVT'' @ toUpperCase (toString36 (nat now));
          eventDoc =
            \<lparr>DrowsinessEventDoc.eventId = evtId,
             DrowsinessEventDoc.driverId = drvId,
             DrowsinessEventDoc.driverName = drvName,
             startTime = (case startArg of Some t \<Rightarrow> t | None \<Rightarrow> now),
             endTime = (case endArg of Some t \<Rightarrow> Some t | None \<Rightarrow> None),
             duration = (case durationArg of Some d \<Rightarrow> Some d | None \<Rightarrow> None),
             driverStatus = drvStatus,
             severity = sev,
             resolved = False,
             resolvedAt = None,
             resolvedBy = None,
             eventNotes = nullish notesArg '''',
             location = locationArg,
             DrowsinessEventDoc.createdAt = now\<rparr>
      in addDoc autoId eventDoc events)"

definition endEvent :: "string \<Rightarrow> Timestamp \<Rightarrow> rat \<Rightarrow> DrowsinessEventDoc collection
    \<Rightarrow> error + DrowsinessEventDoc collection" where
  "endEvent docId endArg durationArg events =
     updateDoc docId (\<lambda>e. e\<lparr>endTime := Some endArg, duration := Some durationArg\<rparr>) events"

section \<open>Alert service\<close>

record AlertDoc =
  alertId :: string
  alertType :: AlertType
  priority :: AlertPriority
  driverId :: string
  driverName :: string
  eventId :: "string option"
  message :: string
  acknowledged :: bool
  acknowledgedAt :: "Timestamp option"
  acknowledgedBy :: "string option"
  createdAt :: Timestamp

definition createAlert :: "AlertType \<Rightarrow> AlertPriority \<Rightarrow> string \<Rightarrow> string \<Rightarrow> string option \<Rightarrow> string
    \<Rightarrow> Timestamp \<Rightarrow> string \<Rightarrow> AlertDoc collection \<Rightarrow> string \<times> AlertDoc collection" where
  "createAlert ty prio drvId drvName evtId msg now autoId alerts =
     (let altId = ''ALT'' @ toUpperCase (toString36 (nat now));
          alertDoc =
            \<lparr>alertId = altId,
             alertType = ty,
             priority = prio,
             AlertDoc.driverId = drvId,
             AlertDoc.driverName = drvName,
             AlertDoc.eventId = evtId,
             message = msg,
             acknowledged = False,
             acknowledgedAt = None,
             acknowledgedBy = None,
             AlertDoc.createdAt = now\<rparr>
      in addDoc autoId alertDoc alerts)"

definition priorityMap :: "Severity \<Rightarrow> AlertPriority" where
  "priorityMap sev =
     (case sev of Low \<Rightarrow> PriorityLow | Medium \<Rightarrow> PriorityMedium | High \<Rightarrow> PriorityCritical)"

text \<open>
  Strings are the UTF-8 bytes of the source text; the three templates start with a
  pictograph (a siren, a warning sign and an information sign, the last two followed by
  a variation selector).
\<close>

definition sirenSign :: string where
  "sirenSign = [CHR 0xF0, CHR 0x9F, CHR 0x9A, CHR 0xA8]"

definition warningSign :: string where
  "warningSign = [CHR 0xE2, CHR 0x9A, CHR 0xA0, CHR 0xEF, CHR 0xB8, CHR 0x8F]"

definition infoSign :: string where
  "infoSign = [CHR 0xE2, CHR 0x84, CHR 0xB9, CHR 0xEF, CHR 0xB8, CHR 0x8F]"

definition createAlertFromEvent :: "string \<Rightarrow> string \<Rightarrow> string \<Rightarrow> Severity \<Rightarrow> string
    \<Rightarrow> Timestamp \<Rightarrow> string \<Rightarrow> AlertDoc collection \<Rightarrow> string \<times> AlertDoc collection" where
  "createAlertFromEvent drvId drvName evtId sev drvStatus now autoId alerts =
     (let msg =
            (if sev = High
             then sirenSign @ '' CRITICAL: Driver '' @ drvName @ '' detected '' @ drvStatus
                  @ ''. Immediate action required.''
             else if sev = Medium
             then warningSign @ '' WARNING: Driver '' @ drvName @ '' showing '' @ drvStatus
                  @ '' signs.''
             else infoSign @ '' INFO: Driver '' @ drvName @ '' had a brief '' @ drvStatus
                  @ '' episode.'')
      in createAlert (if sev = High then high_severity else drowsiness_detected)
           (priorityMap sev) drvId drvName (Some evtId) msg now autoId alerts)"

text \<open>
  The query: the documents with \<open>acknowledged == false\<close>, latest first, at most
  \<open>maxResults\<close> of them. It returns the documents (\<open>d.data()\<close>), without their ids.
\<close>

definition getUnacknowledgedAlerts :: "nat \<Rightarrow> AlertDoc collection \<Rightarrow> AlertDoc list" where
  "getUnacknowledgedAlerts maxResults alerts =
     take maxResults
       (sort_key (\<lambda>a. - AlertDoc.createdAt a) (filter (\<lambda>a. \<not> acknowledged a) (map snd alerts)))"

definition acknowledgeAlert :: "string \<Rightarrow> string \<Rightarrow> Timestamp \<Rightarrow> AlertDoc collection
    \<Rightarrow> error + AlertDoc collection" where
  "acknowledgeAlert docId userId now alerts =
     updateDoc docId
       (\<lambda>a. a\<lparr>acknowledged := True, acknowledgedAt := Some now, acknowledgedBy := Some userId\<rparr>)
       alerts"

text \<open>
  \<open>Promise.all\<close> over the updates: every update is issued, a rejected one leaves the
  store as it was, and the whole call is rejected when one of them is.
\<close>

fun Promise_all :: "('s \<Rightarrow> error + 's) list \<Rightarrow> 's \<Rightarrow> error option \<times> 's" where
  "Promise_all [] s = (None, s)"
| "Promise_all (p # ps) s =
     (case p s of
        Inl e \<Rightarrow> (Some e, snd (Promise_all ps s))
      | Inr s' \<Rightarrow> Promise_all ps s')"

definition acknowledgeAllAlerts :: "string \<Rightarrow> Timestamp \<Rightarrow> AlertDoc collection
    \<Rightarrow> error option \<times> AlertDoc collection" where
  "acknowledgeAllAlerts userId now alerts =
     (let unacknowledged = getUnacknowledgedAlerts 500 alerts;
          promises = map (\<lambda>alert. acknowledgeAlert (alertId alert) userId now) unacknowledged
      in Promise_all promises alerts)"

section \<open>Realtime service\<close>

text \<open>
  The Realtime Database holds a JSON tree. The node of a driver under \<open>driverStatus/\<close>
  is a map from member name to value, and a member set to \<open>null\<close> is absent. \<open>set\<close>
  replaces the node; \<open>update\<close> writes the named members and keeps the others.
\<close>

datatype rtValue = RtString string | RtNumber int

type_synonym rtNode = "string \<rightharpoonup> rtValue"

type_synonym rtTree = "string \<rightharpoonup> rtNode"

definition rtSet :: "string \<Rightarrow> (string \<times> rtValue option) list \<Rightarrow> rtTree \<Rightarrow> rtTree" where
  "rtSet key members tree = tree(key \<mapsto> foldl (\<lambda>node (k, v). node(k := v)) Map.empty members)"

definition rtUpdate :: "string \<Rightarrow> (string \<times> rtValue option) list \<Rightarrow> rtTree \<Rightarrow> rtTree" where
  "rtUpdate key members tree =
     tree(key \<mapsto> foldl (\<lambda>node (k, v). node(k := v))
                    (case tree key of None \<Rightarrow> Map.empty | Some node \<Rightarrow> node) members)"

definition statusText :: "LiveDriverStatus \<Rightarrow> string" where
  "statusText st =
     (case st of LiveAlert \<Rightarrow> ''alert'' | LiveDrowsy \<Rightarrow> ''drowsy''
               | LiveSleeping \<Rightarrow> ''sleeping'' | LiveOffline \<Rightarrow> ''offline'')"

text \<open>\<open>setDriverLiveStatus\<close> reads the clock twice: \<open>now1\<close> and \<open>now2\<close>.\<close>

definition setDriverLiveStatus :: "string \<Rightarrow> string \<Rightarrow> LiveDriverStatus \<Rightarrow> Timestamp \<Rightarrow> Timestamp
    \<Rightarrow> rtTree \<Rightarrow> rtTree" where
  "setDriverLiveStatus drvId drvName st now1 now2 tree =
     rtSet drvId
       [(''driverId'', Some (RtString drvId)),
        (''driverName'', Some (RtString drvName)),
        (''status'', Some (RtString (statusText st))),
        (''lastUpdated'', Some (RtNumber now1)),
        (''sessionStart'', (if st \<noteq> LiveOffline then Some (RtNumber now2) else None))]
       tree"

definition updateDriverStatus :: "string \<Rightarrow> LiveDriverStatus \<Rightarrow> Timestamp \<Rightarrow> rtTree \<Rightarrow> rtTree" where
  "updateDriverStatus drvId st now tree =
     rtUpdate drvId
       [(''status'', Some (RtString (statusText st))),
        (''lastUpdated'', Some (RtNumber now))]
       tree"

definition removeDriverFromLive :: "string \<Rightarrow> Timestamp \<Rightarrow> rtTree \<Rightarrow> rtTree" where
  "removeDriverFromLive drvId now tree =
     rtUpdate drvId
       [(''status'', Some (RtString ''offline'')),
        (''lastUpdated'', Some (RtNumber now)),
        (''sessionStart'', None)]
       tree"

section \<open>Reading the results\<close>

text \<open>\<open>stats.eventsByHour[h]\<close>, the count that a stored histogram holds for an hour.\<close>

definition bucketCount :: "DailyStatsDoc \<Rightarrow> nat \<Rightarrow> int" where
  "bucketCount s h = nullish (map_of (eventsByHour s) h) 0"

text \<open>The number of events of a batch that start in hour \<open>h\<close> of the local day.\<close>

definition hourCount :: "(Timestamp \<Rightarrow> int) \<Rightarrow> DrowsinessEventDoc list \<Rightarrow> nat \<Rightarrow> int" where
  "hourCount tz es h = int (length (filter (\<lambda>e. getHours tz (startTime e) = h) es))"


text \<open>The document that a create call has just filed: the one under the id it returns.\<close>

definition createdAlert :: "string \<times> AlertDoc collection \<Rightarrow> AlertDoc option" where
  "createdAlert r = getDoc (fst r) (snd r)"

definition createdEvent :: "string \<times> DrowsinessEventDoc collection \<Rightarrow> DrowsinessEventDoc option" where
  "createdEvent r = getDoc (fst r) (snd r)"

text \<open>
  The risk formula of the specification, as a function of the four quantities it names.
\<close>

definition riskFormula :: "int \<Rightarrow> int \<Rightarrow> int \<Rightarrow> rat \<Rightarrow> int" where
  "riskFormula eventCount highCount mediumCount totalDurationSeconds =
     min (min (eventCount * 5) 40 + min (highCount * 15 + mediumCount * 5) 40
          + min (Math_round (totalDurationSeconds / 60)) 20) 100"

text \<open>
  Example data: an event of a driver at a given instant; a batch with two events in hour
  3 and two in hour 5 of 2024-03-01 (UTC); and the alert collection after one automatic
  alert for a high-severity event.
\<close>

definition sampleEvent :: "string \<Rightarrow> Timestamp \<Rightarrow> DrowsinessEventDoc" where
  "sampleEvent drvId t =
     \<lparr>DrowsinessEventDoc.eventId = ''EVT1'', DrowsinessEventDoc.driverId = drvId,
      DrowsinessEventDoc.driverName = ''John Mitchell'', startTime = t, endTime = Some (t + 45000),
      duration = Some 45, driverStatus = Drowsy, severity = Medium, resolved = False,
      resolvedAt = None, resolvedBy = None, eventNotes = [], location = None,
      DrowsinessEventDoc.createdAt = t\<rparr>"

definition sampleBatch :: "DrowsinessEventDoc list" where
  "sampleBatch =
     [sampleEvent ''DRV001'' 1709269200000, sampleEvent ''DRV002'' 1709262000000,
      sampleEvent ''DRV001'' 1709271000000, sampleEvent ''DRV003'' 1709263800000]"

definition sampleAlerts :: "AlertDoc collection" where
  "sampleAlerts =
     snd (createAlertFromEvent ''DRV001'' ''John Mitchell'' ''EVTLOYW3V28'' High ''sleeping''
            1700000000000 ''k3Jx9QpLm2VbN8sRt0Yz'' [])"

section \<open>Basic facts\<close>

lemma getDoc_setDoc: "getDoc k (setDoc k d coll) = Some d"
  by (simp add: getDoc_def setDoc_def update_conv')


lemma Math_round_divide:
  assumes "0 < b"
  shows "Math_round (of_int a / of_int b) = (2 * a + b) div (2 * b)"
proof -
  have "(of_int a / of_int b + 1 / 2 :: rat) = of_int (2 * a + b) / of_int (2 * b)"
    using assms by (simp add: field_simps)
  then show ?thesis
    unfolding Math_round_def by (simp only: floor_divide_of_int_eq)
qed

lemma Math_round_numeral_divide [simp]:
  "Math_round (numeral a / numeral b) = (2 * numeral a + numeral b) div (2 * numeral b)"
  "Math_round (- numeral a / numeral b) = (2 * (- numeral a) + numeral b) div (2 * numeral b)"
  "Math_round (- (numeral a / numeral b)) = (2 * (- numeral a) + numeral b) div (2 * numeral b)"
  using Math_round_divide [of "numeral b" "numeral a"] Math_round_divide [of "numeral b" "- numeral a"]
  by simp_all

lemma Math_round_of_int [simp]: "Math_round (of_int a) = a"
  by (simp add: Math_round_def floor_unique)

lemma Math_round_numeral [simp]:
  "Math_round (numeral a) = numeral a" "Math_round (- numeral a) = - numeral a" "Math_round 0 = 0"
  using Math_round_of_int [of "numeral a"] Math_round_of_int [of "- numeral a"] Math_round_of_int [of 0]
  by simp_all


section \<open>Properties of the stats service\<close>

subsection \<open>The risk score\<close>


text \<open>
  Claim C9. The source announces the score as a value in 0-100 and clamps it from above
  only. The duration of an event is any \<open>number\<close>, so a single low-severity event
  with a duration of -600 seconds gives the components 5, 0 and -10, and the stored
  risk score is -5, below the announced range.
\<close>

theorem computeDriverStats_negative_riskScore:
  "\<exists>s. getDoc ''DRV001'' (computeDriverStats ''DRV001'' ''John Mitchell''
            [e\<lparr>DrowsinessEventDoc.driverId := ''DRV001'', severity := Low, duration := Some (- 600)\<rparr>]
            now driverStats) = Some s \<and>
        DriverStatsDoc.totalEvents s = 1 \<and> totalDrowsinessTime s = - 600 \<and> riskScore s = - 5"
  unfolding computeDriverStats_def getDoc_setDoc
  by (simp add: driverStatsOf_def Let_def nullish_def)

text \<open>
  What does hold of the score: it is the formula of the four stored quantities, the
  formula is monotone in each of them and never exceeds 100, and it is not negative
  when the total duration is not.
\<close>

lemma Math_round_mono: "q \<le> r \<Longrightarrow> Math_round q \<le> Math_round r"
  unfolding Math_round_def by (intro floor_mono) simp

lemma Math_round_nonneg: "0 \<le> q \<Longrightarrow> 0 \<le> Math_round q"
  unfolding Math_round_def by simp

lemma riskFormula_mono:
  assumes "n \<le> n'" "h \<le> h'" "m \<le> m'" "T \<le> T'"
  shows "riskFormula n h m T \<le> riskFormula n' h' m' T'"
proof -
  have "Math_round (T / 60) \<le> Math_round (T' / 60)"
    using assms(4) by (intro Math_round_mono) (simp add: divide_right_mono)
  then show ?thesis
    unfolding riskFormula_def using assms(1-3) by (simp add: min_def)
qed

lemma riskFormula_le_100: "riskFormula n h m T \<le> 100"
  by (simp add: riskFormula_def)

lemma riskFormula_nonneg:
  assumes "0 \<le> n" "0 \<le> h" "0 \<le> m" "0 \<le> T"
  shows "0 \<le> riskFormula n h m T"
proof -
  have "0 \<le> Math_round (T / 60)"
    using assms(4) by (intro Math_round_nonneg) simp
  then show ?thesis
    unfolding riskFormula_def using assms(1-3) by (simp add: min_def)
qed

lemma driverStatsOf_riskFormula:
  "riskScore (driverStatsOf drvId drvName events now) =
     riskFormula (DriverStatsDoc.totalEvents (driverStatsOf drvId drvName events now))
       (highSeverityCount (driverStatsOf drvId drvName events now))
       (mediumSeverityCount (driverStatsOf drvId drvName events now))
       (totalDrowsinessTime (driverStatsOf drvId drvName events now))"
  by (simp add: driverStatsOf_def riskFormula_def Let_def)

subsection \<open>The daily histogram\<close>

lemma getHours_less_24: "getHours tz t < 24"
  by (simp add: getHours_def nat_less_iff)

lemma map_of_tabulate:
  "k \<in> set xs \<Longrightarrow> map_of (map (\<lambda>h. (h, c h)) xs) k = Some (c k)"
  by (induction xs) auto

lemma update_tabulate:
  "distinct xs \<Longrightarrow> k \<in> set xs \<Longrightarrow>
   AList.update k v (map (\<lambda>h. (h, c h)) xs) = map (\<lambda>h. (h, (c(k := v)) h)) xs"
proof (induction xs)
  case Nil
  then show ?case by simp
next
  case (Cons x xs)
  show ?case
  proof (cases "x = k")
    case True
    with Cons.prems have "k \<notin> set xs" by simp
    then have "map (\<lambda>h. (h, (c(k := v)) h)) xs = map (\<lambda>h. (h, c h)) xs"
      by (intro map_cong) auto
    with True show ?thesis by simp
  next
    case False
    with Cons show ?thesis by simp
  qed
qed

lemma bumpHour_tabulate:
  "k < n \<Longrightarrow>
   bumpHour k (map (\<lambda>h. (h, c h)) [0..<n]) = map (\<lambda>h. (h, (c(k := c k + 1)) h)) [0..<n]"
  by (simp add: bumpHour_def map_of_tabulate update_tabulate nullish_def)

lemma dailyStep_eventsByHour:
  "l_eventsByHour (dailyStep tz s e) = bumpHour (getHours tz (startTime e)) (l_eventsByHour s)"
  by (simp add: dailyStep_def Let_def)

lemma dailyLoop_eventsByHour:
  "l_eventsByHour s = map (\<lambda>h. (h, c h)) [0..<24] \<Longrightarrow>
   l_eventsByHour (foldl (dailyStep tz) s es) =
     map (\<lambda>h. (h, c h + hourCount tz es h)) [0..<24]"
proof (induction es arbitrary: s c)
  case Nil
  then show ?case by (simp add: hourCount_def)
next
  case (Cons e es)
  let ?k = "getHours tz (startTime e)"
  have "l_eventsByHour (dailyStep tz s e) = map (\<lambda>h. (h, (c(?k := c ?k + 1)) h)) [0..<24]"
    using Cons.prems getHours_less_24 [of tz "startTime e"]
    by (simp only: dailyStep_eventsByHour bumpHour_tabulate)
  from Cons.IH [OF this] show ?case
    by (simp add: hourCount_def)
qed

lemma dailyStats_histogram:
  "l_eventsByHour (foldl (dailyStep tz) dailyInit es) = map (\<lambda>h. (h, hourCount tz es h)) [0..<24]"
  using dailyLoop_eventsByHour [of dailyInit "\<lambda>_. 0" tz es]
  by (simp add: dailyInit_def)

lemma sum_hourCount:
  "(\<Sum>h\<leftarrow>[0..<24]. hourCount tz es h) = int (length es)"
proof (induction es)
  case Nil
  then show ?case by (simp add: hourCount_def)
next
  case (Cons e es)
  let ?k = "getHours tz (startTime e)"
  have k: "?k < 24" by (rule getHours_less_24)
  have "(\<Sum>h\<leftarrow>[0..<24]. hourCount tz (e # es) h)
      = (\<Sum>h\<leftarrow>[0..<24]. (if ?k = h then 1 else 0) + hourCount tz es h)"
    by (intro arg_cong [where f = sum_list] map_cong) (auto simp: hourCount_def)
  also have "\<dots> = (\<Sum>h\<leftarrow>[0..<24]. if ?k = h then 1 else 0) + (\<Sum>h\<leftarrow>[0..<24]. hourCount tz es h)"
    by (simp only: sum_list_addf)
  also have "(\<Sum>h\<leftarrow>[0..<24]. if ?k = h then 1 else 0) = (1::int)"
    using k by (simp add: sum_list_map_eq_sum_count interv_sum_list_conv_sum_set_nat)
  finally show ?case using Cons.IH by simp
qed

lemma dailyLoop_severity_counts:
  "l_highCount (foldl (dailyStep tz) s es) + l_mediumCount (foldl (dailyStep tz) s es)
     + l_lowCount (foldl (dailyStep tz) s es)
   = l_highCount s + l_mediumCount s + l_lowCount s + int (length es)"
  by (induction es arbitrary: s) (simp_all add: dailyStep_def Let_def)

lemma sorted_keys_entries:
  "Object_entries (map (\<lambda>h. (h, c h)) [0..<n]) = map (\<lambda>h. (h, c h)) [0..<n]"
  unfolding Object_entries_def
  by (rule sort_key_id_if_sorted) (simp add: comp_def)

lemma peak_scan:
  assumes nonneg: "\<And>h. 0 \<le> c h"
  shows "case foldl peakStep (0, 0) (map (\<lambda>h. (h, c h)) [0..<n]) of (p, m) \<Rightarrow>
           (\<forall>h<n. c h \<le> m) \<and> (\<forall>h<p. c h < m) \<and>
           (if n = 0 then p = 0 \<and> m = 0 else p < n \<and> m = c p)"
proof (induction n)
  case 0
  show ?case by simp
next
  case (Suc n)
  obtain p m where pm: "foldl peakStep (0, 0) (map (\<lambda>h. (h, c h)) [0..<n]) = (p, m)"
    by (cases "foldl peakStep (0, 0) (map (\<lambda>h. (h, c h)) [0..<n])")
  from Suc have "case (p, m) of (p, m) \<Rightarrow>
      (\<forall>h<n. c h \<le> m) \<and> (\<forall>h<p. c h < m) \<and>
      (if n = 0 then p = 0 \<and> m = 0 else p < n \<and> m = c p)"
    unfolding pm .
  then have le: "\<forall>h<n. c h \<le> m" and lt: "\<forall>h<p. c h < m"
    and at: "if n = 0 then p = 0 \<and> m = 0 else p < n \<and> m = c p"
    unfolding prod.case by blast+
  have step: "foldl peakStep (0, 0) (map (\<lambda>h. (h, c h)) [0..<Suc n]) = peakStep (p, m) (n, c n)"
    by (simp add: pm)
  show ?case
  proof (cases "m < c n")
    case True
    then have "peakStep (p, m) (n, c n) = (n, c n)"
      by (simp add: peakStep_def)
    moreover have "\<forall>h<Suc n. c h \<le> c n"
      using le True by (auto simp: less_Suc_eq)
    moreover have "\<forall>h<n. c h < c n"
      using le True by fastforce
    ultimately show ?thesis
      unfolding step by auto
  next
    case False
    then have keep: "peakStep (p, m) (n, c n) = (p, m)"
      by (simp add: peakStep_def)
    have "\<forall>h<Suc n. c h \<le> m"
      using le False by (auto simp: less_Suc_eq)
    moreover have "p < Suc n \<and> m = c p"
    proof (cases "n = 0")
      case True
      with at have "p = 0" "m = 0" by simp_all
      moreover have "c 0 = 0"
        using False nonneg [of 0] True \<open>m = 0\<close> by simp
      ultimately show ?thesis by simp
    next
      case False
      with at show ?thesis by simp
    qed
    ultimately show ?thesis
      unfolding step keep using lt by auto
  qed
qed

lemma hourCount_nonneg: "0 \<le> hourCount tz es h"
  by (simp add: hourCount_def)

text \<open>
  Claim C3. In the document that \<open>computeDailyStats\<close> stores for a batch of N events,
  \<open>totalEvents\<close> is the sum of the three severity counts, and the histogram
  \<open>eventsByHour\<close> has 24 entries whose counts add up to N.
\<close>

theorem computeDailyStats_totals:
  "\<exists>s. getDoc dateKey (computeDailyStats tz dateKey events now dailyStats) = Some s \<and>
     DailyStatsDoc.totalEvents s =
       DailyStatsDoc.highSeverityEvents s + mediumSeverityEvents s + lowSeverityEvents s \<and>
     length (eventsByHour s) = 24 \<and>
     sum_list (map snd (eventsByHour s)) = int (length events)"
proof -
  define S where "S = foldl (dailyStep tz) dailyInit events"
  have hist: "l_eventsByHour S = map (\<lambda>h. (h, hourCount tz events h)) [0..<24]"
    unfolding S_def by (rule dailyStats_histogram)
  have "l_highCount dailyInit + l_mediumCount dailyInit + l_lowCount dailyInit = 0"
    by (simp add: dailyInit_def)
  then have sev: "l_highCount S + l_mediumCount S + l_lowCount S = int (length events)"
    unfolding S_def using dailyLoop_severity_counts [of tz dailyInit events] by simp
  have total: "sum_list (map snd (l_eventsByHour S)) = int (length events)"
    using sum_hourCount [of tz events] by (simp add: hist comp_def)
  have len: "length (l_eventsByHour S) = 24"
    by (simp add: hist)
  show ?thesis
    unfolding computeDailyStats_def getDoc_setDoc dailyStatsOf_def Let_def S_def [symmetric]
    using sev total len by simp
qed

text \<open>
  Claim C2. The stored \<open>peakHour\<close> is an hour in 0-23; the bucket of every hour holds the
  number of events of the batch that start in that hour; no bucket holds more than the
  bucket of \<open>peakHour\<close>, and every earlier hour holds strictly less: among the hours that
  reach the maximum, \<open>peakHour\<close> is the lowest.
\<close>

theorem computeDailyStats_peakHour:
  "\<exists>s. getDoc dateKey (computeDailyStats tz dateKey events now dailyStats) = Some s \<and>
     peakHour s < 24 \<and>
     (\<forall>h<24. bucketCount s h = hourCount tz events h) \<and>
     (\<forall>h<24. bucketCount s h \<le> bucketCount s (peakHour s)) \<and>
     (\<forall>h<peakHour s. bucketCount s h < bucketCount s (peakHour s))"
proof -
  define S where "S = foldl (dailyStep tz) dailyInit events"
  define c where "c = hourCount tz events"
  have hist: "l_eventsByHour S = map (\<lambda>h. (h, c h)) [0..<24]"
    unfolding S_def c_def by (rule dailyStats_histogram)
  obtain p m where pm: "foldl peakStep (0, 0) (map (\<lambda>h. (h, c h)) [0..<24]) = (p, m)"
    by (cases "foldl peakStep (0, 0) (map (\<lambda>h. (h, c h)) [0..<24])")
  have nonneg: "0 \<le> c h" for h
    unfolding c_def by (rule hourCount_nonneg)
  have "case (p, m) of (p, m) \<Rightarrow>
      (\<forall>h<24. c h \<le> m) \<and> (\<forall>h<p. c h < m) \<and>
      (if (24::nat) = 0 then p = 0 \<and> m = 0 else p < 24 \<and> m = c p)"
    using peak_scan [of c 24, OF nonneg] unfolding pm .
  then have scan: "(\<forall>h<24. c h \<le> m) \<and> (\<forall>h<p. c h < m) \<and> p < 24 \<and> m = c p"
    unfolding prod.case by auto
  define s where "s = dailyStatsOf tz dateKey events now"
  have peak: "peakHour s = p"
    unfolding s_def dailyStatsOf_def Let_def S_def [symmetric]
    by (simp only: hist sorted_keys_entries pm) simp
  have bucket: "bucketCount s h = c h" if "h < 24" for h
    unfolding s_def dailyStatsOf_def Let_def S_def [symmetric] bucketCount_def
    using that by (simp add: hist map_of_tabulate nullish_def)
  have "getDoc dateKey (computeDailyStats tz dateKey events now dailyStats) = Some s"
    unfolding computeDailyStats_def s_def by (rule getDoc_setDoc)
  moreover have "peakHour s < 24"
    using scan peak by simp
  moreover have "\<forall>h<24. bucketCount s h = hourCount tz events h"
    using bucket by (simp add: c_def)
  moreover have "\<forall>h<24. bucketCount s h \<le> bucketCount s (peakHour s)"
    using scan bucket peak by auto
  moreover have "\<forall>h<peakHour s. bucketCount s h < bucketCount s (peakHour s)"
    using scan bucket peak by auto
  ultimately show ?thesis by blast
qed

lemma sample_hours:
  "getHours (\<lambda>_. 0) 1709269200000 = 5" "getHours (\<lambda>_. 0) 1709262000000 = 3"
  "getHours (\<lambda>_. 0) 1709271000000 = 5" "getHours (\<lambda>_. 0) 1709263800000 = 3"
  by (simp_all add: getHours_def)

lemma sample_hourCount:
  "hourCount (\<lambda>_. 0) sampleBatch h = (if h = 3 then 2 else if h = 5 then 2 else 0)"
  by (simp add: hourCount_def sampleBatch_def sampleEvent_def sample_hours)

text \<open>
  On the example batch the hours 3 and 5 hold two events each, and the properties above
  leave 3 as the only possible peak.
\<close>

theorem computeDailyStats_peakHour_witness:
  "\<exists>s. getDoc ''2024-03-01'' (computeDailyStats (\<lambda>_. 0) ''2024-03-01'' sampleBatch 0 []) = Some s \<and>
     peakHour s = 3 \<and> bucketCount s 3 = 2 \<and> bucketCount s 5 = 2"
proof -
  obtain s where s: "getDoc ''2024-03-01'' (computeDailyStats (\<lambda>_. 0) ''2024-03-01'' sampleBatch 0 []) = Some s"
    and range: "peakHour s < 24"
    and count: "\<forall>h<24. bucketCount s h = hourCount (\<lambda>_. 0) sampleBatch h"
    and top: "\<forall>h<24. bucketCount s h \<le> bucketCount s (peakHour s)"
    and first: "\<forall>h<peakHour s. bucketCount s h < bucketCount s (peakHour s)"
    using computeDailyStats_peakHour [of "''2024-03-01''" "\<lambda>_. 0" sampleBatch 0 "[]"] by blast
  have b3: "bucketCount s 3 = 2" and b5: "bucketCount s 5 = 2"
    using count by (simp_all add: sample_hourCount)
  have "2 \<le> bucketCount s (peakHour s)"
    using top [rule_format, of 3] b3 by simp
  then have "peakHour s = 3 \<or> peakHour s = 5"
    using count range by (auto simp: sample_hourCount split: if_splits)
  moreover have "peakHour s \<noteq> 5"
  proof
    assume five: "peakHour s = 5"
    then have "bucketCount s 3 < bucketCount s 5"
      using first [rule_format, of 3] by simp
    then show False
      using b3 b5 by simp
  qed
  ultimately show ?thesis
    using s b3 b5 by blast
qed

subsection \<open>The dashboard metrics\<close>



text \<open>
  Claim C10. \<open>getDashboardMetrics\<close> returns \<open>totalDrivers = 0\<close> and
  \<open>unresolvedEvents = 0\<close> whatever the store holds: the two fields are left for the
  caller to fill in.
\<close>

theorem getDashboardMetrics_placeholders:
  "totalDrivers (getDashboardMetrics todayKey yesterdayKey dailyStats) = 0 \<and>
   unresolvedEvents (getDashboardMetrics todayKey yesterdayKey dailyStats) = 0"
  by (simp add: getDashboardMetrics_def Let_def)

section \<open>Properties of the alert service\<close>

lemma getDoc_addDoc: "getDoc (fst (addDoc k d coll)) (snd (addDoc k d coll)) = Some d"
  by (simp add: addDoc_def getDoc_def update_conv')

lemma createdAlert_createAlert:
  "map_option f (createdAlert (createAlert ty prio d n e msg now aid alerts)) =
   Some (f \<lparr>alertId = ''ALT'' @ toUpperCase (toString36 (nat now)), alertType = ty,
             priority = prio, AlertDoc.driverId = d, AlertDoc.driverName = n,
             AlertDoc.eventId = e, message = msg, acknowledged = False, acknowledgedAt = None,
             acknowledgedBy = None, AlertDoc.createdAt = now\<rparr>)"
  by (simp add: createdAlert_def createAlert_def Let_def getDoc_addDoc)

text \<open>
  Claim C4. The alert that \<open>createAlertFromEvent\<close> files has priority critical for
  severity high, medium for medium and low for low. For each severity there are three
  fixed pieces of text such that the message is the first piece, the driver name, the
  second piece, the driver status and the third piece: nothing else of the input
  reaches the message.
\<close>

theorem createAlertFromEvent_priority_message:
  "map_option priority (createdAlert (createAlertFromEvent d1 n1 e1 High st1 now1 aid1 alerts1))
     = Some PriorityCritical \<and>
   map_option priority (createdAlert (createAlertFromEvent d2 n2 e2 Medium st2 now2 aid2 alerts2))
     = Some PriorityMedium \<and>
   map_option priority (createdAlert (createAlertFromEvent d3 n3 e3 Low st3 now3 aid3 alerts3))
     = Some PriorityLow \<and>
   (\<exists>pre mid post. \<forall>d n e st now aid alerts.
      map_option message (createdAlert (createAlertFromEvent d n e sev st now aid alerts))
        = Some (pre @ n @ mid @ st @ post))"
proof (intro conjI)
  show "\<exists>pre mid post. \<forall>d n e st now aid alerts.
      map_option message (createdAlert (createAlertFromEvent d n e sev st now aid alerts))
        = Some (pre @ n @ mid @ st @ post)"
  proof (cases sev)
    case Low
    show ?thesis
      by (rule exI [of _ "infoSign @ '' INFO: Driver ''"], rule exI [of _ "'' had a brief ''"],
          rule exI [of _ "'' episode.''"])
        (simp add: Low createAlertFromEvent_def createdAlert_createAlert)
  next
    case Medium
    show ?thesis
      by (rule exI [of _ "warningSign @ '' WARNING: Driver ''"], rule exI [of _ "'' showing ''"],
          rule exI [of _ "'' signs.''"])
        (simp add: Medium createAlertFromEvent_def createdAlert_createAlert)
  next
    case High
    show ?thesis
      by (rule exI [of _ "sirenSign @ '' CRITICAL: Driver ''"], rule exI [of _ "'' detected ''"],
          rule exI [of _ "''. Immediate action required.''"])
        (simp add: High createAlertFromEvent_def createdAlert_createAlert)
  qed
qed (simp_all add: createAlertFromEvent_def createdAlert_createAlert priorityMap_def)

lemma toString36_sample: "toUpperCase (toString36 1700000000000) = ''LOYW3V28''"
  by (simp add: toUpperCase_def digitChar_def char_of_def bit_Suc_0_iff)

lemma sampleAlerts_eq:
  "sampleAlerts =
     [(''k3Jx9QpLm2VbN8sRt0Yz'',
       \<lparr>alertId = ''ALTLOYW3V28'', alertType = high_severity, priority = PriorityCritical,
        AlertDoc.driverId = ''DRV001'', AlertDoc.driverName = ''John Mitchell'',
        AlertDoc.eventId = Some ''EVTLOYW3V28'',
        message = sirenSign @ '' CRITICAL: Driver John Mitchell detected sleeping. Immediate action required.'',
        acknowledged = False, acknowledgedAt = None, acknowledgedBy = None,
        AlertDoc.createdAt = 1700000000000\<rparr>)]"
  unfolding sampleAlerts_def createAlertFromEvent_def createAlert_def Let_def addDoc_def
  by (simp add: toString36_sample priorityMap_def del: toString36.simps)

text \<open>
  Claim C5. \<open>acknowledgeAlert\<close> addresses a document by its Firestore id, and
  \<open>acknowledgeAllAlerts\<close> hands it the \<open>alertId\<close> field of each fetched alert
  instead. For an alert that \<open>createAlertFromEvent\<close> has filed, the two differ: the
  fetched alert has the field \<open>ALTLOYW3V28\<close> and lies under the generated id, so the
  update is rejected, the call fails and the alert stays unacknowledged, whereas
  \<open>acknowledgeAlert\<close> with the document id acknowledges it.
\<close>

theorem acknowledgeAllAlerts_wrong_key:
  "map alertId (getUnacknowledgedAlerts 500 sampleAlerts) = [''ALTLOYW3V28''] \<and>
   map fst sampleAlerts = [''k3Jx9QpLm2VbN8sRt0Yz''] \<and>
   acknowledgeAllAlerts ''operator1'' 1700000060000 sampleAlerts = (Some NotFound, sampleAlerts) \<and>
   map (acknowledged \<circ> snd) (snd (acknowledgeAllAlerts ''operator1'' 1700000060000 sampleAlerts))
     = [False] \<and>
   map_option acknowledged
     (case acknowledgeAlert ''k3Jx9QpLm2VbN8sRt0Yz'' ''operator1'' 1700000060000 sampleAlerts of
        Inl err \<Rightarrow> None | Inr alerts' \<Rightarrow> getDoc ''k3Jx9QpLm2VbN8sRt0Yz'' alerts')
     = Some True"
  unfolding sampleAlerts_eq
  by (simp add: getUnacknowledgedAlerts_def acknowledgeAllAlerts_def acknowledgeAlert_def
      updateDoc_def getDoc_def Let_def)

text \<open>
  The same holds of every collection in which no unacknowledged alert has its \<open>alertId\<close>
  as the id of a document, as is the case when the documents are filed by \<open>addDoc\<close>:
  the bulk call changes nothing, and it is rejected as soon as there is an alert to
  acknowledge.
\<close>

lemma Promise_all_all_rejected:
  "\<forall>p\<in>set ps. \<exists>e. p s = Inl e \<Longrightarrow> snd (Promise_all ps s) = s"
  by (induction ps) auto

lemma Promise_all_rejected:
  "ps \<noteq> [] \<Longrightarrow> \<forall>p\<in>set ps. \<exists>e. p s = Inl e \<Longrightarrow> fst (Promise_all ps s) \<noteq> None"
  by (cases ps) auto

lemma acknowledgeAllAlerts_unchanged:
  assumes "\<forall>a\<in>set (getUnacknowledgedAlerts 500 alerts). map_of alerts (alertId a) = None"
  shows "snd (acknowledgeAllAlerts userId now alerts) = alerts"
  unfolding acknowledgeAllAlerts_def Let_def
  using assms
  by (intro Promise_all_all_rejected) (auto simp: acknowledgeAlert_def updateDoc_def)

lemma acknowledgeAllAlerts_rejected:
  assumes "\<forall>a\<in>set (getUnacknowledgedAlerts 500 alerts). map_of alerts (alertId a) = None"
    and "getUnacknowledgedAlerts 500 alerts \<noteq> []"
  shows "fst (acknowledgeAllAlerts userId now alerts) = Some NotFound"
proof -
  have "fst (acknowledgeAllAlerts userId now alerts) \<noteq> None"
    unfolding acknowledgeAllAlerts_def Let_def
    using assms
    by (intro Promise_all_rejected) (auto simp: acknowledgeAlert_def updateDoc_def)
  then show ?thesis
    by (cases "fst (acknowledgeAllAlerts userId now alerts)") (auto intro: error.exhaust)
qed

section \<open>Properties of the event service\<close>

lemma createdEvent_createEvent:
  "map_option f (createdEvent (createEvent d n st sev startArg durationArg endArg notesArg loc now aid events))
   = Some (f \<lparr>DrowsinessEventDoc.eventId = ''EVT'' @ toUpperCase (toString36 (nat now)),
      DrowsinessEventDoc.driverId = d, DrowsinessEventDoc.driverName = n,
      startTime = (case startArg of Some t \<Rightarrow> t | None \<Rightarrow> now), endTime = endArg,
      duration = durationArg, driverStatus = st, severity = sev, resolved = False,
      resolvedAt = None, resolvedBy = None, eventNotes = nullish notesArg [],
      location = loc, DrowsinessEventDoc.createdAt = now\<rparr>)"
proof -
  have "(case endArg of Some t \<Rightarrow> Some t | None \<Rightarrow> None) = endArg"
    by (cases endArg) simp_all
  moreover have "(case durationArg of Some x \<Rightarrow> Some x | None \<Rightarrow> None) = durationArg"
    by (cases durationArg) simp_all
  ultimately show ?thesis
    by (simp add: createdEvent_def createEvent_def Let_def getDoc_addDoc)
qed

text \<open>
  Claim C6, as the code has it. \<open>createEvent\<close> stores the duration and the end time
  that the caller passes, each on its own, so the created event has a duration exactly
  when the caller gave one and an end time exactly when the caller gave one.
  \<open>endEvent\<close> is rejected when the document does not exist and otherwise sets both
  the end time and the duration.
\<close>

theorem event_duration_endTime:
  "map_option (\<lambda>e. (duration e, endTime e))
     (createdEvent (createEvent d n st sev startArg durationArg endArg notesArg loc now aid events))
     = Some (durationArg, endArg) \<and>
   (case endEvent docId t secs events of
      Inl err \<Rightarrow> getDoc docId events = None
    | Inr events' \<Rightarrow>
        (\<exists>e0. getDoc docId events = Some e0 \<and>
           getDoc docId events' = Some (e0\<lparr>endTime := Some t, duration := Some secs\<rparr>)))"
proof (rule conjI)
  show "map_option (\<lambda>e. (duration e, endTime e))
     (createdEvent (createEvent d n st sev startArg durationArg endArg notesArg loc now aid events))
     = Some (durationArg, endArg)"
    by (simp add: createdEvent_createEvent)
next
  show "case endEvent docId t secs events of
      Inl err \<Rightarrow> getDoc docId events = None
    | Inr events' \<Rightarrow>
        (\<exists>e0. getDoc docId events = Some e0 \<and>
           getDoc docId events' = Some (e0\<lparr>endTime := Some t, duration := Some secs\<rparr>))"
    by (cases "map_of events docId")
       (simp_all add: endEvent_def updateDoc_def getDoc_def update_conv')
qed

text \<open>
  A call of \<open>createEvent\<close> with a duration of 45 seconds and no end time files an
  event whose duration is set and whose end time is null.
\<close>

theorem createEvent_duration_without_endTime:
  "map_option (\<lambda>e. (duration e \<noteq> None) = (endTime e \<noteq> None))
     (createdEvent (createEvent ''DRV001'' ''John Mitchell'' Drowsy Medium None (Some 45) None
        None None 1700000000000 ''k3Jx9QpLm2VbN8sRt0Yz'' []))
   = Some False"
  by (simp add: createdEvent_createEvent)

section \<open>Properties of the realtime service\<close>

text \<open>
  Claim C7. On a stored entry \<open>updateDriverStatus\<close> writes \<open>status\<close> and
  \<open>lastUpdated\<close> and leaves every other member of the entry, and every other entry,
  as it was. After \<open>setDriverLiveStatus("DRV002", "Sarah Chen", "drowsy")\<close> and
  \<open>updateDriverStatus("DRV002", "alert")\<close> the entry has status alert and the
  \<open>sessionStart\<close> that the first call wrote.
\<close>

theorem updateDriverStatus_frame:
  "(tree drvId = Some node \<longrightarrow>
     (\<exists>node'. updateDriverStatus drvId st now tree drvId = Some node' \<and>
        node' ''status'' = Some (RtString (statusText st)) \<and>
        node' ''lastUpdated'' = Some (RtNumber now) \<and>
        (\<forall>member. member \<noteq> ''status'' \<and> member \<noteq> ''lastUpdated'' \<longrightarrow> node' member = node member)) \<and>
     (\<forall>other. other \<noteq> drvId \<longrightarrow> updateDriverStatus drvId st now tree other = tree other))
   \<and>
   (\<exists>n1 n2.
      setDriverLiveStatus ''DRV002'' ''Sarah Chen'' LiveDrowsy t1 t2 tree0 ''DRV002'' = Some n1 \<and>
      updateDriverStatus ''DRV002'' LiveAlert t3
        (setDriverLiveStatus ''DRV002'' ''Sarah Chen'' LiveDrowsy t1 t2 tree0) ''DRV002'' = Some n2 \<and>
      n1 ''sessionStart'' = Some (RtNumber t2) \<and>
      n2 ''sessionStart'' = Some (RtNumber t2) \<and>
      n2 ''status'' = Some (RtString ''alert'') \<and>
      n2 ''lastUpdated'' = Some (RtNumber t3) \<and>
      n2 ''driverId'' = Some (RtString ''DRV002'') \<and>
      n2 ''driverName'' = Some (RtString ''Sarah Chen''))"
  by (simp add: updateDriverStatus_def setDriverLiveStatus_def rtUpdate_def rtSet_def statusText_def)

text \<open>The frame property, used on the entry that \<open>setDriverLiveStatus\<close> wrote.\<close>

theorem updateDriverStatus_frame_witness:
  "\<exists>node'. updateDriverStatus ''DRV002'' LiveAlert 1700000060000
       (setDriverLiveStatus ''DRV002'' ''Sarah Chen'' LiveDrowsy 1700000000000 1700000000001 Map.empty)
       ''DRV002'' = Some node' \<and>
     node' ''status'' = Some (RtString ''alert'') \<and>
     node' ''lastUpdated'' = Some (RtNumber 1700000060000) \<and>
     node' ''sessionStart'' = Some (RtNumber 1700000000001) \<and>
     node' ''driverName'' = Some (RtString ''Sarah Chen'')"
proof -
  define tree where "tree = setDriverLiveStatus ''DRV002'' ''Sarah Chen'' LiveDrowsy
      1700000000000 1700000000001 Map.empty"
  obtain node where node: "tree ''DRV002'' = Some node"
    and start: "node ''sessionStart'' = Some (RtNumber 1700000000001)"
    and name: "node ''driverName'' = Some (RtString ''Sarah Chen'')"
    by (simp add: tree_def setDriverLiveStatus_def rtSet_def)
  from updateDriverStatus_frame [of tree "''DRV002''" node LiveAlert 1700000060000] node
  obtain node' where "updateDriverStatus ''DRV002'' LiveAlert 1700000060000 tree ''DRV002'' = Some node'"
    and "node' ''status'' = Some (RtString (statusText LiveAlert))"
    and "node' ''lastUpdated'' = Some (RtNumber 1700000060000)"
    and frame: "\<forall>member. member \<noteq> ''status'' \<and> member \<noteq> ''lastUpdated'' \<longrightarrow> node' member = node member"
    by blast
  moreover have "node' ''sessionStart'' = node ''sessionStart''" "node' ''driverName'' = node ''driverName''"
    using frame by simp_all
  ultimately show ?thesis
    unfolding tree_def [symmetric] using start name by (simp add: statusText_def)
qed

end
